theory Spec2Isabelle
  imports Main
begin

section \<open>Python values, exceptions and the outcome of a method call\<close>

text \<open>
  The attributes of a \<open>QRCodeGenerator\<close> and the arguments of its methods are untyped
  Python values. The ones that can be written for a version, a border, a box size, a colour,
  a payload or a path are modelled: \<open>None\<close>, integers, strings and tuples (an RGB colour).
\<close>

datatype pyval = PyNone | PyInt int | PyStr string | PyTuple "pyval list"

text \<open>
  Exceptions are values. \<open>NameError\<close> and \<open>TypeError\<close> are raised by the interpreter;
  the other three are what the encoding and imaging libraries raise (payload overflow,
  a bad parameter or colour, a path that cannot be written).
\<close>

datatype pyexn =
    NameError string
  | TypeError string
  | ValueError string
  | DataOverflowError
  | OSError string

text \<open>The four constants of \<open>qrcode.constants\<close>.\<close>

datatype ec_const = ERROR_CORRECT_L | ERROR_CORRECT_M | ERROR_CORRECT_Q | ERROR_CORRECT_H

text \<open>
  The calls a method makes into the libraries, with the argument values it passes.
  A log entry pairs the call with \<open>None\<close> when the call returned and with \<open>Some e\<close>
  when it raised \<open>e\<close>.
\<close>

datatype 'img call =
    Call_QRCode pyval ec_const pyval pyval
  | Call_add_data pyval
  | Call_make bool
  | Call_make_image pyval pyval
  | Call_save 'img pyval
  | Call_abspath pyval

type_synonym 'img log = "('img call \<times> pyexn option) list"

section \<open>The class \<open>QRCodeGenerator\<close>\<close>

text \<open>
  The five attributes assigned in \<open>__init__\<close>. The attribute \<open>size\<close> is named
  \<open>size_field\<close> here, \<open>size\<close> being a constant of HOL.
\<close>

record QRCodeGenerator =
  size_field :: pyval
  border :: pyval
  fill_color :: pyval
  back_color :: pyval
  box_size :: pyval

text \<open>
  What a method call leaves behind: the value returned or the exception raised, the object
  after the call, the file system after the call, and the library calls made, in order.
\<close>

record ('img, 'fs) outcome =
  result :: "pyexn + pyval"
  self_after :: QRCodeGenerator
  fs_after :: 'fs
  calls :: "'img log"

text \<open>\<open>__init__\<close> (lines 5-10).\<close>

definition QRCodeGenerator_init :: QRCodeGenerator where
  "QRCodeGenerator_init =
     \<lparr>size_field = PyInt 4, border = PyInt 4, fill_color = PyStr ''black'',
      back_color = PyStr ''white'', box_size = PyInt 10\<rparr>"

text \<open>
  \<open>set_properties\<close> (lines 12-22): five tests \<open>is not None\<close> in sequence, each followed
  by one assignment. The method calls nothing and returns \<open>None\<close>.
\<close>

definition set_properties ::
  "QRCodeGenerator \<Rightarrow> pyval \<Rightarrow> pyval \<Rightarrow> pyval \<Rightarrow> pyval \<Rightarrow> pyval \<Rightarrow> 'fs \<Rightarrow> ('img, 'fs) outcome" where
  "set_properties self size' border' fill_color' back_color' box_size' fs =
     (let self1 = (if size' \<noteq> PyNone then self\<lparr>size_field := size'\<rparr> else self);
          self2 = (if border' \<noteq> PyNone then self1\<lparr>border := border'\<rparr> else self1);
          self3 = (if fill_color' \<noteq> PyNone then self2\<lparr>fill_color := fill_color'\<rparr> else self2);
          self4 = (if back_color' \<noteq> PyNone then self3\<lparr>back_color := back_color'\<rparr> else self3);
          self5 = (if box_size' \<noteq> PyNone then self4\<lparr>box_size := box_size'\<rparr> else self4)
      in \<lparr>result = Inr PyNone, self_after = self5, fs_after = fs, calls = []\<rparr>)"

text \<open>
  A parameter with a default: an argument left out of the call is bound to the default
  of the signature.
\<close>

definition arg_or_default :: "pyval option \<Rightarrow> pyval \<Rightarrow> pyval" where
  "arg_or_default a d = (case a of None \<Rightarrow> d | Some v \<Rightarrow> v)"

text \<open>
  A call of \<open>set_properties\<close> as a caller writes it: each of the five parameters is either
  passed (\<open>Some v\<close>, where \<open>v\<close> may be \<open>None\<close> itself) or left out (\<open>None\<close>), and every
  default of the signature on line 12 is \<open>None\<close>.
\<close>

definition call_set_properties ::
  "QRCodeGenerator \<Rightarrow> pyval option \<Rightarrow> pyval option \<Rightarrow> pyval option \<Rightarrow> pyval option \<Rightarrow>
     pyval option \<Rightarrow> 'fs \<Rightarrow> ('img, 'fs) outcome" where
  "call_set_properties self size' border' fill_color' back_color' box_size' fs =
     set_properties self (arg_or_default size' PyNone) (arg_or_default border' PyNone)
       (arg_or_default fill_color' PyNone) (arg_or_default back_color' PyNone)
       (arg_or_default box_size' PyNone) fs"

section \<open>The libraries \<open>generate\<close> calls\<close>

text \<open>
  The module imports \<open>qrcode\<close> and \<open>PIL.Image\<close>, which are not part of the repository.
  \<open>generate\<close> is therefore modelled over any library: a record of the six operations its
  body names, each of which returns or raises. \<open>'qr\<close> is the state of a \<open>QRCode\<close> object
  (\<open>add_data\<close> and \<open>make\<close> update it in place), \<open>'img\<close> an image, \<open>'fs\<close> the file
  system. Saving may change the file system even when it raises.
\<close>

record ('qr, 'img, 'fs) library =
  lib_QRCode :: "pyval \<Rightarrow> ec_const \<Rightarrow> pyval \<Rightarrow> pyval \<Rightarrow> pyexn + 'qr"
  lib_add_data :: "'qr \<Rightarrow> pyval \<Rightarrow> pyexn + 'qr"
  lib_make :: "'qr \<Rightarrow> bool \<Rightarrow> pyexn + 'qr"
  lib_make_image :: "'qr \<Rightarrow> pyval \<Rightarrow> pyval \<Rightarrow> pyexn + 'img"
  lib_save :: "'img \<Rightarrow> pyval \<Rightarrow> 'fs \<Rightarrow> (pyexn + unit) \<times> 'fs"
  lib_abspath :: "pyval \<Rightarrow> 'fs \<Rightarrow> pyexn + pyval"

text \<open>
  The names bound at module level when a method runs: the two imports of lines 1-2 and the
  class of line 3. A name that is neither bound there nor a Python builtin raises
  \<open>NameError\<close> where it is evaluated; \<open>os\<close> is not a builtin.
\<close>

definition module_names :: "string list" where
  "module_names = [''qrcode'', ''Image'', ''QRCodeGenerator'']"

definition lookup_global :: "string \<Rightarrow> pyexn + unit" where
  "lookup_global n = (if n \<in> set module_names then Inr () else Inl (NameError n))"

text \<open>
  \<open>generate\<close> (lines 24-39), statement by statement: the constructor call with its four
  keyword arguments, \<open>add_data\<close>, \<open>make(fit=True)\<close>, \<open>make_image\<close>, \<open>save\<close>, and the
  \<open>return\<close>, which first evaluates the name \<open>os\<close>. There is no exception handler: the
  first exception ends the call. No statement assigns to an attribute of \<open>self\<close>.
\<close>

definition generate ::
  "('qr, 'img, 'fs) library \<Rightarrow> QRCodeGenerator \<Rightarrow> pyval \<Rightarrow> pyval \<Rightarrow> 'fs \<Rightarrow> ('img, 'fs) outcome" where
  "generate L self data output_file fs =
     (let c1 = Call_QRCode (size_field self) ERROR_CORRECT_H (box_size self) (border self);
          c2 = Call_add_data data;
          c3 = Call_make True;
          c4 = Call_make_image (fill_color self) (back_color self)
      in
      case lookup_global ''qrcode'' of
        Inl e \<Rightarrow> \<lparr>result = Inl e, self_after = self, fs_after = fs, calls = []\<rparr>
      | Inr _ \<Rightarrow>
      (case lib_QRCode L (size_field self) ERROR_CORRECT_H (box_size self) (border self) of
        Inl e \<Rightarrow> \<lparr>result = Inl e, self_after = self, fs_after = fs, calls = [(c1, Some e)]\<rparr>
      | Inr qr \<Rightarrow>
      (case lib_add_data L qr data of
        Inl e \<Rightarrow>
          \<lparr>result = Inl e, self_after = self, fs_after = fs,
           calls = [(c1, None), (c2, Some e)]\<rparr>
      | Inr qr1 \<Rightarrow>
      (case lib_make L qr1 True of
        Inl e \<Rightarrow>
          \<lparr>result = Inl e, self_after = self, fs_after = fs,
           calls = [(c1, None), (c2, None), (c3, Some e)]\<rparr>
      | Inr qr2 \<Rightarrow>
      (case lib_make_image L qr2 (fill_color self) (back_color self) of
        Inl e \<Rightarrow>
          \<lparr>result = Inl e, self_after = self, fs_after = fs,
           calls = [(c1, None), (c2, None), (c3, None), (c4, Some e)]\<rparr>
      | Inr img \<Rightarrow>
      (case lib_save L img output_file fs of
        (Inl e, fs') \<Rightarrow>
          \<lparr>result = Inl e, self_after = self, fs_after = fs',
           calls = [(c1, None), (c2, None), (c3, None), (c4, None),
                    (Call_save img output_file, Some e)]\<rparr>
      | (Inr _, fs') \<Rightarrow>
      (case lookup_global ''os'' of
        Inl e \<Rightarrow>
          \<lparr>result = Inl e, self_after = self, fs_after = fs',
           calls = [(c1, None), (c2, None), (c3, None), (c4, None),
                    (Call_save img output_file, None)]\<rparr>
      | Inr _ \<Rightarrow>
      (case lib_abspath L output_file fs' of
        Inl e \<Rightarrow>
          \<lparr>result = Inl e, self_after = self, fs_after = fs',
           calls = [(c1, None), (c2, None), (c3, None), (c4, None),
                    (Call_save img output_file, None), (Call_abspath output_file, Some e)]\<rparr>
      | Inr p \<Rightarrow>
          \<lparr>result = Inr p, self_after = self, fs_after = fs',
           calls = [(c1, None), (c2, None), (c3, None), (c4, None),
                    (Call_save img output_file, None),
                    (Call_abspath output_file, None)]\<rparr>))))))))"

text \<open>
  A call of \<open>generate\<close> as a caller writes it: \<open>output_file\<close> is passed or left out, and
  its default on line 24 is the string \<open>"qrcode5.png"\<close>.
\<close>

definition call_generate ::
  "('qr, 'img, 'fs) library \<Rightarrow> QRCodeGenerator \<Rightarrow> pyval \<Rightarrow> pyval option \<Rightarrow> 'fs \<Rightarrow>
     ('img, 'fs) outcome" where
  "call_generate L self data output_file fs =
     generate L self data (arg_or_default output_file (PyStr ''qrcode5.png'')) fs"

subsection \<open>Reading a log\<close>

text \<open>The constructor calls of a log, the images handed to \<open>save\<close>, and the paths.\<close>

fun constructor_calls :: "'img log \<Rightarrow> 'img call list" where
  "constructor_calls [] = []"
| "constructor_calls ((Call_QRCode v ec bs b, r) # cs) = Call_QRCode v ec bs b # constructor_calls cs"
| "constructor_calls (c # cs) = constructor_calls cs"

fun saved_images :: "'img log \<Rightarrow> 'img list" where
  "saved_images [] = []"
| "saved_images ((Call_save img p, r) # cs) = img # saved_images cs"
| "saved_images (c # cs) = saved_images cs"

fun saved_paths :: "'img log \<Rightarrow> pyval list" where
  "saved_paths [] = []"
| "saved_paths ((Call_save img p, r) # cs) = p # saved_paths cs"
| "saved_paths (c # cs) = saved_paths cs"

section \<open>A stand-in for the libraries\<close>

text \<open>
  No theorem about every library depends on this section. It gives one library on which
  the theorems are run at concrete inputs: an encoder for error-correction level H (the
  only level \<open>generate\<close> asks for) and byte-mode payloads, with the sizing rule the
  \<open>qrcode\<close> package documents for \<open>make\<close>: with \<open>fit=True\<close> the smallest version from the
  configured one up to 40 that holds the payload is selected, and when there is none the
  version check rejects version 41 with a \<open>ValueError\<close>; with \<open>fit=False\<close> the
  configured version is used as it is and \<open>DataOverflowError\<close> is raised when the payload
  does not fit.
  The capacities are the data codewords of versions 1 to 40 at level H in ISO/IEC 18004.
\<close>

record ref_qr =
  qr_version :: "nat option"
  qr_box_size :: int
  qr_border :: int
  qr_data :: string

record ref_image =
  img_version :: nat
  img_box_size :: int
  img_border :: int
  img_fill :: pyval
  img_back :: pyval
  img_data :: string

definition data_codewords_H :: "nat list" where
  "data_codewords_H =
     [9, 16, 26, 36, 46, 60, 66, 86, 100, 122,
      140, 158, 180, 197, 223, 253, 283, 313, 341, 385,
      406, 442, 464, 514, 538, 596, 628, 661, 701, 745,
      793, 845, 901, 961, 986, 1054, 1096, 1142, 1222, 1276]"

definition bit_limit_H :: "nat \<Rightarrow> nat" where
  "bit_limit_H v = 8 * (data_codewords_H ! (v - 1))"

text \<open>Mode indicator, character count (8 bits below version 10, 16 from there) and the bytes.\<close>

definition needed_bits :: "nat \<Rightarrow> nat \<Rightarrow> nat" where
  "needed_bits v n = 4 + (if v < 10 then 8 else 16) + 8 * n"

definition best_fit :: "nat \<Rightarrow> nat \<Rightarrow> nat option" where
  "best_fit start n = find (\<lambda>v. needed_bits v n \<le> bit_limit_H v) [start..<41]"

definition ref_QRCode :: "pyval \<Rightarrow> ec_const \<Rightarrow> pyval \<Rightarrow> pyval \<Rightarrow> pyexn + ref_qr" where
  "ref_QRCode version ec box_size' border' =
     (case (box_size', border') of
        (PyInt bs, PyInt b) \<Rightarrow>
          if bs \<le> 0 then Inl (ValueError ''Invalid box size'')
          else if b < 0 then Inl (ValueError ''Invalid border value'')
          else if ec \<noteq> ERROR_CORRECT_H then Inl (ValueError ''level outside the stand-in'')
          else (case version of
                  PyNone \<Rightarrow>
                    Inr \<lparr>qr_version = None, qr_box_size = bs, qr_border = b, qr_data = []\<rparr>
                | PyInt v \<Rightarrow>
                    if 1 \<le> v \<and> v \<le> 40
                    then Inr \<lparr>qr_version = Some (nat v), qr_box_size = bs, qr_border = b,
                              qr_data = []\<rparr>
                    else Inl (ValueError ''Invalid version'')
                | _ \<Rightarrow> Inl (TypeError ''version''))
      | _ \<Rightarrow> Inl (TypeError ''box_size or border''))"

definition ref_add_data :: "ref_qr \<Rightarrow> pyval \<Rightarrow> pyexn + ref_qr" where
  "ref_add_data qr data =
     (case data of
        PyStr s \<Rightarrow> Inr (qr\<lparr>qr_data := qr_data qr @ s\<rparr>)
      | _ \<Rightarrow> Inl (TypeError ''payload outside the stand-in''))"

definition ref_make :: "ref_qr \<Rightarrow> bool \<Rightarrow> pyexn + ref_qr" where
  "ref_make qr fit =
     (case qr_version qr of
        None \<Rightarrow>
          (case best_fit 1 (length (qr_data qr)) of
             None \<Rightarrow> Inl (ValueError ''Invalid version'')
           | Some v \<Rightarrow> Inr (qr\<lparr>qr_version := Some v\<rparr>))
      | Some v0 \<Rightarrow>
          if fit then
            (case best_fit v0 (length (qr_data qr)) of
               None \<Rightarrow> Inl (ValueError ''Invalid version'')
             | Some v \<Rightarrow> Inr (qr\<lparr>qr_version := Some v\<rparr>))
          else if needed_bits v0 (length (qr_data qr)) \<le> bit_limit_H v0 then Inr qr
          else Inl DataOverflowError)"

definition ref_color :: "pyval \<Rightarrow> bool" where
  "ref_color c =
     (case c of
        PyStr s \<Rightarrow> s \<in> set [''black'', ''white'', ''red'', ''green'', ''blue'']
      | PyTuple [PyInt r, PyInt g, PyInt b] \<Rightarrow>
          0 \<le> r \<and> r \<le> 255 \<and> 0 \<le> g \<and> g \<le> 255 \<and> 0 \<le> b \<and> b \<le> 255
      | _ \<Rightarrow> False)"

definition ref_make_image :: "ref_qr \<Rightarrow> pyval \<Rightarrow> pyval \<Rightarrow> pyexn + ref_image" where
  "ref_make_image qr fill back =
     (case qr_version qr of
        None \<Rightarrow> Inl (ValueError ''symbol not made'')
      | Some v \<Rightarrow>
          if ref_color fill \<and> ref_color back
          then Inr \<lparr>img_version = v, img_box_size = qr_box_size qr, img_border = qr_border qr,
                    img_fill = fill, img_back = back, img_data = qr_data qr\<rparr>
          else Inl (ValueError ''unknown color specifier''))"

definition ref_save ::
  "ref_image \<Rightarrow> pyval \<Rightarrow> (string \<rightharpoonup> ref_image) \<Rightarrow> (pyexn + unit) \<times> (string \<rightharpoonup> ref_image)" where
  "ref_save img path fs =
     (case path of
        PyStr s \<Rightarrow> if s = [] then (Inl (OSError ''no such file''), fs)
                   else (Inr (), fs(s \<mapsto> img))
      | _ \<Rightarrow> (Inl (TypeError ''path''), fs))"

definition ref_abspath :: "pyval \<Rightarrow> (string \<rightharpoonup> ref_image) \<Rightarrow> pyexn + pyval" where
  "ref_abspath path fs =
     (case path of
        PyStr s \<Rightarrow> Inr (PyStr (if take 1 s = ''/'' then s else ''/work/'' @ s))
      | _ \<Rightarrow> Inl (TypeError ''path''))"

definition ref_library :: "(ref_qr, ref_image, string \<rightharpoonup> ref_image) library" where
  "ref_library =
     \<lparr>lib_QRCode = ref_QRCode, lib_add_data = ref_add_data, lib_make = ref_make,
      lib_make_image = ref_make_image, lib_save = ref_save, lib_abspath = ref_abspath\<rparr>"

section \<open>Notions used in the statements\<close>

text \<open>Every one of the five attributes holds a value other than \<open>None\<close>.\<close>

definition all_set :: "QRCodeGenerator \<Rightarrow> bool" where
  "all_set c =
     (size_field c \<noteq> PyNone \<and> border c \<noteq> PyNone \<and> fill_color c \<noteq> PyNone \<and>
      back_color c \<noteq> PyNone \<and> box_size c \<noteq> PyNone)"

text \<open>Any number of \<open>set_properties\<close> calls on one object, one after the other.\<close>

type_synonym setter_args =
  "pyval option \<times> pyval option \<times> pyval option \<times> pyval option \<times> pyval option"

fun run_setters :: "QRCodeGenerator \<Rightarrow> setter_args list \<Rightarrow> QRCodeGenerator" where
  "run_setters self [] = self"
| "run_setters self ((s, b, f, k, x) # rest) =
     run_setters (self_after (call_set_properties self s b f k x () :: (unit, unit) outcome)) rest"

text \<open>
  What the encoder answers for a payload when it is held to the configured version: the
  constructor and \<open>add_data\<close> as \<open>generate\<close> calls them, then \<open>make(fit=False)\<close>. A payload
  is too long for the configured version when this raises.
\<close>

definition encode_at_configured_version ::
  "('qr, 'img, 'fs) library \<Rightarrow> QRCodeGenerator \<Rightarrow> pyval \<Rightarrow> pyexn + 'qr" where
  "encode_at_configured_version L self data =
     (case lib_QRCode L (size_field self) ERROR_CORRECT_H (box_size self) (border self) of
        Inl e \<Rightarrow> Inl e
      | Inr qr \<Rightarrow>
          (case lib_add_data L qr data of
             Inl e \<Rightarrow> Inl e
           | Inr qr1 \<Rightarrow> lib_make L qr1 False))"

text \<open>
  The image the four calls before \<open>save\<close> produce from a configuration and a payload, if
  none of them raises.
\<close>

definition rendered_image ::
  "('qr, 'img, 'fs) library \<Rightarrow> QRCodeGenerator \<Rightarrow> pyval \<Rightarrow> 'img option" where
  "rendered_image L self data =
     (case lib_QRCode L (size_field self) ERROR_CORRECT_H (box_size self) (border self) of
        Inl e \<Rightarrow> None
      | Inr qr \<Rightarrow>
          (case lib_add_data L qr data of
             Inl e \<Rightarrow> None
           | Inr qr1 \<Rightarrow>
               (case lib_make L qr1 True of
                  Inl e \<Rightarrow> None
                | Inr qr2 \<Rightarrow>
                    (case lib_make_image L qr2 (fill_color self) (back_color self) of
                       Inl e \<Rightarrow> None
                     | Inr img \<Rightarrow> Some img))))"

text \<open>The payload of the call in the script part of the module (line 45), 92 bytes long.\<close>

definition script_payload :: pyval where
  "script_payload = PyStr ''https://encrypted-tbn0.gstatic.com/images?q=tbn:ANd9GcTlYxTsrHiM5jFyET2Cec3NTSRY7vMKIsQ1XQ&s''"

section \<open>Basic facts\<close>

lemma lookup_qrcode: "lookup_global ''qrcode'' = Inr ()"
  by (simp add: lookup_global_def module_names_def)

lemma lookup_os: "lookup_global ''os'' = Inl (NameError ''os'')"
  by (simp add: lookup_global_def module_names_def)

lemmas generate_simps = generate_def Let_def lookup_qrcode lookup_os

lemmas setter_simps = call_set_properties_def set_properties_def arg_or_default_def Let_def

lemmas ref_simps = ref_library_def ref_QRCode_def ref_add_data_def ref_make_def
  ref_make_image_def ref_save_def ref_color_def best_fit_def needed_bits_def bit_limit_H_def
  data_codewords_H_def QRCodeGenerator_init_def script_payload_def upt_rec

lemma generate_no_return: "result (generate L self data output_file fs) \<noteq> Inr p"
  by (simp add: generate_simps split: sum.split prod.split)

lemma self_after_generate: "self_after (generate L self data output_file fs) = self"
  by (simp add: generate_simps split: sum.split prod.split)

lemma saved_images_generate:
  "saved_images (calls (generate L self data p fs)) =
   saved_images (calls (generate L self data p' fs'))"
  by (simp add: generate_simps split: sum.split prod.split)

lemma raised_is_result:
  "(c, Some e) \<in> set (calls (generate L self data output_file fs)) \<Longrightarrow>
   result (generate L self data output_file fs) = Inl e \<and>
   last (calls (generate L self data output_file fs)) = (c, Some e)"
  by (auto simp add: generate_simps split: sum.splits prod.splits)

lemma result_is_raised:
  "result (generate L self data output_file fs) = Inl e \<Longrightarrow>
   (\<exists>c. last (calls (generate L self data output_file fs)) = (c, Some e)) \<or>
   e = NameError ''os''"
  by (auto simp add: generate_simps split: sum.splits prod.splits)

lemma calls_distinct: "distinct (map fst (calls (generate L self data output_file fs)))"
  by (simp add: generate_simps split: sum.split prod.split)

lemma saved_paths_generate:
  "saved_paths (calls (generate L self data output_file fs)) =
   map (\<lambda>img. output_file) (saved_images (calls (generate L self data output_file fs)))"
  by (simp add: generate_simps split: sum.split prod.split)

lemma rendered_is_saved:
  "(Call_make_image fc bc, None) \<in> set (calls (generate L self data output_file fs)) \<Longrightarrow>
   saved_paths (calls (generate L self data output_file fs)) = [output_file]"
  by (auto simp add: generate_simps split: sum.splits prod.splits)

lemma fs_after_generate:
  "fs_after (generate L self data p fs) =
     (case rendered_image L self data of None \<Rightarrow> fs | Some img \<Rightarrow> snd (lib_save L img p fs))"
  by (simp add: generate_simps rendered_image_def split: sum.split prod.split)

lemma saved_images_rendered:
  "saved_images (calls (generate L self data p fs)) =
     (case rendered_image L self data of None \<Rightarrow> [] | Some img \<Rightarrow> [img])"
  by (simp add: generate_simps rendered_image_def split: sum.split prod.split)

lemma result_from_library:
  "result (generate L self data p fs) = Inl e \<Longrightarrow>
   e = NameError ''os'' \<or>
   lib_QRCode L (size_field self) ERROR_CORRECT_H (box_size self) (border self) = Inl e \<or>
   (\<exists>qr. lib_QRCode L (size_field self) ERROR_CORRECT_H (box_size self) (border self) = Inr qr \<and>
     (lib_add_data L qr data = Inl e \<or>
      (\<exists>qr1. lib_add_data L qr data = Inr qr1 \<and>
        (lib_make L qr1 True = Inl e \<or>
         (\<exists>qr2. lib_make L qr1 True = Inr qr2 \<and>
           (lib_make_image L qr2 (fill_color self) (back_color self) = Inl e \<or>
            (\<exists>img. lib_make_image L qr2 (fill_color self) (back_color self) = Inr img \<and>
               fst (lib_save L img p fs) = Inl e)))))))"
  by (auto simp add: generate_simps split: sum.splits prod.splits)

lemma all_set_init: "all_set QRCodeGenerator_init"
  by (simp add: all_set_def QRCodeGenerator_init_def)

lemma all_set_set_properties:
  "all_set self \<Longrightarrow> all_set (self_after (set_properties self s b f k x fs))"
  by (simp add: all_set_def set_properties_def Let_def)

lemma all_set_call_set_properties:
  "all_set self \<Longrightarrow> all_set (self_after (call_set_properties self s b f k x fs))"
  by (simp add: call_set_properties_def all_set_set_properties)

lemma all_set_run_setters: "all_set self \<Longrightarrow> all_set (run_setters self cs)"
proof (induction cs arbitrary: self)
  case Nil
  then show ?case by simp
next
  case (Cons a cs)
  obtain s b f k x where a: "a = (s, b, f, k, x)"
    by (cases a) auto
  from Cons.prems have "all_set (self_after (call_set_properties self s b f k x () :: (unit, unit) outcome))"
    by (rule all_set_call_set_properties)
  then show ?case
    unfolding a by (simp add: Cons.IH)
qed

section \<open>The claims\<close>

subsection \<open>Construction and \<open>set_properties\<close>\<close>

text \<open>
  Claim C3. A freshly constructed \<open>QRCodeGenerator\<close> has the documented defaults:
  version (attribute \<open>size\<close>) 4, border 4, fill colour \<open>"black"\<close>, background colour
  \<open>"white"\<close>, box size 10.
\<close>

theorem init_defaults:
  "size_field QRCodeGenerator_init = PyInt 4 \<and>
   border QRCodeGenerator_init = PyInt 4 \<and>
   fill_color QRCodeGenerator_init = PyStr ''black'' \<and>
   back_color QRCodeGenerator_init = PyStr ''white'' \<and>
   box_size QRCodeGenerator_init = PyInt 10"
  by (simp add: QRCodeGenerator_init_def)

text \<open>
  Claim C4. For every configuration and every subset of the five parameters passed to
  \<open>set_properties\<close>: an attribute whose parameter is not specified keeps its value, an
  attribute whose parameter is specified takes the value supplied, and the call does nothing
  else (the file system is as before, no library is called, \<open>None\<close> is returned).
  A parameter is specified when it is given a value other than \<open>None\<close>: the method
  tests \<open>is not None\<close>, so a parameter left out and a parameter given \<open>None\<close> are both
  unspecified.
\<close>

theorem set_properties_frame:
  "(let out = call_set_properties self s b f k x fs in
    size_field (self_after out) =
      (case s of None \<Rightarrow> size_field self
       | Some v \<Rightarrow> if v = PyNone then size_field self else v) \<and>
    border (self_after out) =
      (case b of None \<Rightarrow> border self
       | Some v \<Rightarrow> if v = PyNone then border self else v) \<and>
    fill_color (self_after out) =
      (case f of None \<Rightarrow> fill_color self
       | Some v \<Rightarrow> if v = PyNone then fill_color self else v) \<and>
    back_color (self_after out) =
      (case k of None \<Rightarrow> back_color self
       | Some v \<Rightarrow> if v = PyNone then back_color self else v) \<and>
    box_size (self_after out) =
      (case x of None \<Rightarrow> box_size self
       | Some v \<Rightarrow> if v = PyNone then box_size self else v) \<and>
    fs_after out = fs \<and> calls out = [] \<and> result out = Inr PyNone)"
  by (simp add: setter_simps split: option.split)

text \<open>
  The statement of C4 at a call that sets the version and the fill colour, passes an explicit
  \<open>None\<close> for the background colour and leaves the other two parameters out.
\<close>

theorem set_properties_frame_witness:
  "(let out = call_set_properties QRCodeGenerator_init (Some (PyInt 7)) None
       (Some (PyStr ''red'')) (Some PyNone) None () :: (unit, unit) outcome in
    size_field (self_after out) = PyInt 7 \<and> border (self_after out) = PyInt 4 \<and>
    fill_color (self_after out) = PyStr ''red'' \<and>
    back_color (self_after out) = PyStr ''white'' \<and>
    box_size (self_after out) = PyInt 10 \<and>
    fs_after out = () \<and> calls out = [] \<and> result out = Inr PyNone)"
  using set_properties_frame [where self = QRCodeGenerator_init and s = "Some (PyInt 7)"
      and b = None and f = "Some (PyStr ''red'')" and k = "Some PyNone" and x = None
      and fs = "()" and ?'a = unit]
  by (simp add: QRCodeGenerator_init_def Let_def)

text \<open>
  Claim C7. All five attributes always hold a value other than \<open>None\<close>: they do after
  construction, a \<open>set_properties\<close> call keeps it so, and hence so does every sequence of
  \<open>set_properties\<close> calls on a new object.
\<close>

theorem configuration_never_None:
  "all_set QRCodeGenerator_init \<and>
   (all_set self \<longrightarrow> all_set (self_after (call_set_properties self s b f k x fs))) \<and>
   all_set (run_setters QRCodeGenerator_init cs)"
  by (simp add: all_set_init all_set_call_set_properties all_set_run_setters)

text \<open>
  The statement of C7 at calls that pass an explicit \<open>None\<close>.
\<close>

theorem configuration_never_None_witness:
  "all_set (self_after (call_set_properties QRCodeGenerator_init (Some PyNone) (Some (PyInt 2))
       None None (Some PyNone) () :: (unit, unit) outcome)) \<and>
   all_set (run_setters QRCodeGenerator_init
       [(Some PyNone, None, None, None, None), (None, Some (PyInt 1), Some PyNone, None, None)])"
  using configuration_never_None [where self = QRCodeGenerator_init and s = "Some PyNone"
      and b = "Some (PyInt 2)" and f = None and k = None and x = "Some PyNone" and fs = "()"
      and cs = "[(Some PyNone, None, None, None, None),
                 (None, Some (PyInt 1), Some PyNone, None, None)]" and ?'a = unit]
  by simp

text \<open>
  Claim C10. Passing \<open>None\<close> for a parameter of \<open>set_properties\<close> is the same call as
  leaving the parameter out, for each of the five parameters and whatever the others are;
  and no attribute is ever set to \<open>None\<close> by the method: an attribute that is \<open>None\<close>
  after the call was \<open>None\<close> before it.
\<close>

theorem None_means_unspecified:
  "(call_set_properties self (Some PyNone) b f k x fs :: ('img, 'fs) outcome) =
     call_set_properties self None b f k x fs \<and>
   (call_set_properties self s (Some PyNone) f k x fs :: ('img, 'fs) outcome) =
     call_set_properties self s None f k x fs \<and>
   (call_set_properties self s b (Some PyNone) k x fs :: ('img, 'fs) outcome) =
     call_set_properties self s b None k x fs \<and>
   (call_set_properties self s b f (Some PyNone) x fs :: ('img, 'fs) outcome) =
     call_set_properties self s b f None x fs \<and>
   (call_set_properties self s b f k (Some PyNone) fs :: ('img, 'fs) outcome) =
     call_set_properties self s b f k None fs \<and>
   (let out = (call_set_properties self s b f k x fs :: ('img, 'fs) outcome) in
      (size_field (self_after out) = PyNone \<longrightarrow> size_field self = PyNone) \<and>
      (border (self_after out) = PyNone \<longrightarrow> border self = PyNone) \<and>
      (fill_color (self_after out) = PyNone \<longrightarrow> fill_color self = PyNone) \<and>
      (back_color (self_after out) = PyNone \<longrightarrow> back_color self = PyNone) \<and>
      (box_size (self_after out) = PyNone \<longrightarrow> box_size self = PyNone))"
  by (simp add: setter_simps split: option.split)

text \<open>
  The statement of C10 on a new object, with an explicit \<open>None\<close> for the version.
\<close>

theorem None_means_unspecified_witness:
  "(call_set_properties QRCodeGenerator_init (Some PyNone) (Some (PyInt 2)) None None
       None () :: (unit, unit) outcome) =
     call_set_properties QRCodeGenerator_init None (Some (PyInt 2)) None None None () \<and>
   (let out = (call_set_properties QRCodeGenerator_init (Some PyNone) (Some (PyInt 2)) None None
       None () :: (unit, unit) outcome) in
      size_field (self_after out) \<noteq> PyNone \<and> border (self_after out) \<noteq> PyNone \<and>
      fill_color (self_after out) \<noteq> PyNone \<and> back_color (self_after out) \<noteq> PyNone \<and>
      box_size (self_after out) \<noteq> PyNone)"
proof -
  have init: "size_field QRCodeGenerator_init \<noteq> PyNone" "border QRCodeGenerator_init \<noteq> PyNone"
    "fill_color QRCodeGenerator_init \<noteq> PyNone" "back_color QRCodeGenerator_init \<noteq> PyNone"
    "box_size QRCodeGenerator_init \<noteq> PyNone"
    by (simp_all add: QRCodeGenerator_init_def)
  show ?thesis
    using init None_means_unspecified [where self = QRCodeGenerator_init and s = "Some PyNone"
      and b = "Some (PyInt 2)" and f = None and k = None and x = None and fs = "()"
      and ?'img = unit]
    unfolding Let_def by blast
qed

subsection \<open>\<open>generate\<close>\<close>

text \<open>
  Claim C1. When the image is encoded and written, \<open>generate\<close> returns the absolute
  path of the file. The code does not: line 39 evaluates \<open>os.path.abspath\<close>, and the module
  never imports \<open>os\<close>, so with any library and any arguments \<open>generate\<close> returns no
  value. At the call of the module's own script, \<open>generate\<close> of the payload of line 45
  with the default path on a new object, the image is saved at \<open>qrcode5.png\<close> and the
  call then raises \<open>NameError\<close> for the name \<open>os\<close>.
\<close>

theorem generate_raises_NameError:
  "result (generate L self data output_file fs) \<noteq> Inr p \<and>
   result (call_generate ref_library QRCodeGenerator_init script_payload None Map.empty) =
     Inl (NameError ''os'') \<and>
   saved_paths (calls (call_generate ref_library QRCodeGenerator_init script_payload None Map.empty)) =
     [PyStr ''qrcode5.png''] \<and>
   fs_after (call_generate ref_library QRCodeGenerator_init script_payload None Map.empty)
     ''qrcode5.png'' \<noteq> None"
proof -
  have "result (generate L self data output_file fs) \<noteq> Inr p"
    by (rule generate_no_return)
  moreover have "result (call_generate ref_library QRCodeGenerator_init script_payload None Map.empty) =
     Inl (NameError ''os'')"
    by (simp add: call_generate_def arg_or_default_def generate_simps ref_simps)
  moreover have "saved_paths (calls (call_generate ref_library QRCodeGenerator_init script_payload None Map.empty)) =
     [PyStr ''qrcode5.png'']"
    by (simp add: call_generate_def arg_or_default_def generate_simps ref_simps)
  moreover have "fs_after (call_generate ref_library QRCodeGenerator_init script_payload None Map.empty)
     ''qrcode5.png'' \<noteq> None"
    by (simp add: call_generate_def arg_or_default_def generate_simps ref_simps)
  ultimately show ?thesis by blast
qed

text \<open>
  Claim C2, as stated: a payload too long for the configured version at level H makes
  \<open>generate\<close> fail rather than succeed at a different size. It does not hold:
  \<open>generate\<close> calls \<open>make(fit=True)\<close>. The payload of line 45 is 92 bytes long and
  version 4 at level H holds 34, so the encoder held to version 4 raises
  \<open>DataOverflowError\<close>; in \<open>generate\<close> the \<open>make\<close> call returns, the image saved
  at \<open>qrcode5.png\<close> is a version 9 symbol of the whole payload, and none of the five
  library calls raises.
\<close>

theorem generate_fit_counterexample:
  "encode_at_configured_version ref_library QRCodeGenerator_init script_payload =
     Inl DataOverflowError \<and>
   (Call_make True, None) \<in>
     set (calls (call_generate ref_library QRCodeGenerator_init script_payload None Map.empty)) \<and>
   saved_images (calls (call_generate ref_library QRCodeGenerator_init script_payload None Map.empty)) =
     [\<lparr>img_version = 9, img_box_size = 10, img_border = 4, img_fill = PyStr ''black'',
       img_back = PyStr ''white'',
       img_data = ''https://encrypted-tbn0.gstatic.com/images?q=tbn:ANd9GcTlYxTsrHiM5jFyET2Cec3NTSRY7vMKIsQ1XQ&s''\<rparr>] \<and>
   map_option img_version
     (fs_after (call_generate ref_library QRCodeGenerator_init script_payload None Map.empty)
        ''qrcode5.png'') = Some 9 \<and>
   map snd (calls (call_generate ref_library QRCodeGenerator_init script_payload None Map.empty)) =
     [None, None, None, None, None]"
proof -
  have "encode_at_configured_version ref_library QRCodeGenerator_init script_payload =
     Inl DataOverflowError"
    by (simp add: encode_at_configured_version_def ref_simps)
  moreover have "(Call_make True, None) \<in>
     set (calls (call_generate ref_library QRCodeGenerator_init script_payload None Map.empty))"
    by (simp add: call_generate_def arg_or_default_def generate_simps ref_simps)
  moreover have "saved_images (calls (call_generate ref_library QRCodeGenerator_init script_payload None Map.empty)) =
     [\<lparr>img_version = 9, img_box_size = 10, img_border = 4, img_fill = PyStr ''black'',
       img_back = PyStr ''white'',
       img_data = ''https://encrypted-tbn0.gstatic.com/images?q=tbn:ANd9GcTlYxTsrHiM5jFyET2Cec3NTSRY7vMKIsQ1XQ&s''\<rparr>]"
    by (simp add: call_generate_def arg_or_default_def generate_simps ref_simps)
  moreover have "map_option img_version
     (fs_after (call_generate ref_library QRCodeGenerator_init script_payload None Map.empty)
        ''qrcode5.png'') = Some 9"
    by (simp add: call_generate_def arg_or_default_def generate_simps ref_simps)
  moreover have "map snd (calls (call_generate ref_library QRCodeGenerator_init script_payload None Map.empty)) =
     [None, None, None, None, None]"
    by (simp add: call_generate_def arg_or_default_def generate_simps ref_simps)
  ultimately show ?thesis by blast
qed

text \<open>
  Claim C2, amended. \<open>generate\<close> hands the payload unchanged to the encoder and calls
  \<open>make\<close> with \<open>fit=True\<close>. When that call raises, \<open>generate\<close> raises the same
  exception, having rendered and saved nothing, the file system as it was. When that call
  returns, with whatever version the encoder selected, \<open>generate\<close> renders that symbol
  and, if rendering returns, saves the image at \<open>output_file\<close>: the file system after the
  call is the one \<open>save\<close> leaves for that image and that path, and an exception of
  \<open>save\<close> is the exception of \<open>generate\<close>.
\<close>

theorem generate_make_fit:
  assumes "lib_QRCode L (size_field self) ERROR_CORRECT_H (box_size self) (border self) = Inr qr"
    and "lib_add_data L qr data = Inr qr1"
  shows "(lib_make L qr1 True = Inl e \<longrightarrow>
            result (generate L self data output_file fs) = Inl e \<and>
            calls (generate L self data output_file fs) =
              [(Call_QRCode (size_field self) ERROR_CORRECT_H (box_size self) (border self), None),
               (Call_add_data data, None), (Call_make True, Some e)] \<and>
            fs_after (generate L self data output_file fs) = fs) \<and>
         (lib_make L qr1 True = Inr qr2 \<longrightarrow>
            lib_make_image L qr2 (fill_color self) (back_color self) = Inr img \<longrightarrow>
            fs_after (generate L self data output_file fs) = snd (lib_save L img output_file fs) \<and>
            (fst (lib_save L img output_file fs) = Inl e' \<longrightarrow>
               result (generate L self data output_file fs) = Inl e') \<and>
            saved_images (calls (generate L self data output_file fs)) = [img] \<and>
            saved_paths (calls (generate L self data output_file fs)) = [output_file])"
  using assms by (auto simp add: generate_simps split: sum.split prod.split)

text \<open>
  The amended C2 on a new object: a payload of 1274 bytes, which no version holds at level H,
  and a payload of 40 bytes, which version 5 holds and version 4 does not.
\<close>

theorem generate_make_fit_witness:
  "result (generate ref_library QRCodeGenerator_init (PyStr (replicate 1274 (CHR ''a'')))
      (PyStr ''out.png'') Map.empty) = Inl (ValueError ''Invalid version'') \<and>
   fs_after (generate ref_library QRCodeGenerator_init (PyStr (replicate 1274 (CHR ''a'')))
      (PyStr ''out.png'') Map.empty) = Map.empty \<and>
   fs_after (generate ref_library QRCodeGenerator_init (PyStr (replicate 40 (CHR ''a'')))
      (PyStr ''out.png'') Map.empty) =
     [''out.png'' \<mapsto>
        \<lparr>img_version = 5, img_box_size = 10, img_border = 4, img_fill = PyStr ''black'',
         img_back = PyStr ''white'', img_data = replicate 40 (CHR ''a'')\<rparr>] \<and>
   saved_images (calls (generate ref_library QRCodeGenerator_init (PyStr (replicate 40 (CHR ''a'')))
      (PyStr ''out.png'') Map.empty)) =
     [\<lparr>img_version = 5, img_box_size = 10, img_border = 4, img_fill = PyStr ''black'',
       img_back = PyStr ''white'', img_data = replicate 40 (CHR ''a'')\<rparr>]"
proof -
  let ?qr = "\<lparr>qr_version = Some 4, qr_box_size = 10, qr_border = 4, qr_data = []\<rparr>"
  let ?img = "\<lparr>img_version = 5, img_box_size = 10, img_border = 4, img_fill = PyStr ''black'',
       img_back = PyStr ''white'', img_data = replicate 40 (CHR ''a'')\<rparr>"
  have "result (generate ref_library QRCodeGenerator_init (PyStr (replicate 1274 (CHR ''a'')))
      (PyStr ''out.png'') Map.empty) = Inl (ValueError ''Invalid version'') \<and>
   fs_after (generate ref_library QRCodeGenerator_init (PyStr (replicate 1274 (CHR ''a'')))
      (PyStr ''out.png'') Map.empty) = Map.empty"
    using generate_make_fit [where L = ref_library and self = QRCodeGenerator_init and qr = ?qr
        and data = "PyStr (replicate 1274 (CHR ''a''))"
        and ?qr1.0 = "?qr\<lparr>qr_data := replicate 1274 (CHR ''a'')\<rparr>"
        and e = "ValueError ''Invalid version''" and output_file = "PyStr ''out.png''"
        and fs = Map.empty]
    by (simp add: ref_simps)
  moreover have "fs_after (generate ref_library QRCodeGenerator_init (PyStr (replicate 40 (CHR ''a'')))
      (PyStr ''out.png'') Map.empty) = [''out.png'' \<mapsto> ?img] \<and>
   saved_images (calls (generate ref_library QRCodeGenerator_init (PyStr (replicate 40 (CHR ''a'')))
      (PyStr ''out.png'') Map.empty)) = [?img]"
    using generate_make_fit [where L = ref_library and self = QRCodeGenerator_init and qr = ?qr
        and data = "PyStr (replicate 40 (CHR ''a''))"
        and ?qr1.0 = "?qr\<lparr>qr_data := replicate 40 (CHR ''a'')\<rparr>"
        and output_file = "PyStr ''out.png''" and fs = Map.empty
        and ?qr2.0 = "\<lparr>qr_version = Some 5, qr_box_size = 10, qr_border = 4,
                         qr_data = replicate 40 (CHR ''a'')\<rparr>"
        and img = ?img]
    by (simp add: ref_simps)
  ultimately show ?thesis by blast
qed

text \<open>
  Claim C5. Every call of \<open>generate\<close> constructs the encoder with the error-correction
  level \<open>ERROR_CORRECT_H\<close>, whatever the configuration and the payload, and with the
  version, the box size and the border of the current configuration. On the library: when
  the constructor raises at these four arguments, \<open>generate\<close> raises the same exception
  and the file system is untouched; the object the constructor returns there is the one the
  payload is added to; and \<open>generate\<close> uses the constructor at these arguments only, so
  replacing the constructor by any function with the same answer there changes nothing in
  the outcome. In the log the constructor call is the first call and occurs once.
\<close>

theorem generate_constructor_call:
  "(lib_QRCode L (size_field self) ERROR_CORRECT_H (box_size self) (border self) = Inl e \<longrightarrow>
      result (generate L self data output_file fs) = Inl e \<and>
      fs_after (generate L self data output_file fs) = fs) \<and>
   (lib_QRCode L (size_field self) ERROR_CORRECT_H (box_size self) (border self) = Inr qr \<longrightarrow>
      lib_add_data L qr data = Inl e \<longrightarrow>
      result (generate L self data output_file fs) = Inl e) \<and>
   (f (size_field self) ERROR_CORRECT_H (box_size self) (border self) =
      lib_QRCode L (size_field self) ERROR_CORRECT_H (box_size self) (border self) \<longrightarrow>
      generate (L\<lparr>lib_QRCode := f\<rparr>) self data output_file fs =
        generate L self data output_file fs) \<and>
   constructor_calls (calls (generate L self data output_file fs)) =
     [Call_QRCode (size_field self) ERROR_CORRECT_H (box_size self) (border self)] \<and>
   map fst (take 1 (calls (generate L self data output_file fs))) =
     [Call_QRCode (size_field self) ERROR_CORRECT_H (box_size self) (border self)]"
proof -
  have raised: "lib_QRCode L (size_field self) ERROR_CORRECT_H (box_size self) (border self) = Inl e \<longrightarrow>
      result (generate L self data output_file fs) = Inl e \<and>
      fs_after (generate L self data output_file fs) = fs"
    by (simp add: generate_simps)
  have used: "lib_QRCode L (size_field self) ERROR_CORRECT_H (box_size self) (border self) = Inr qr \<longrightarrow>
      lib_add_data L qr data = Inl e \<longrightarrow>
      result (generate L self data output_file fs) = Inl e"
    by (simp add: generate_simps)
  have only: "f (size_field self) ERROR_CORRECT_H (box_size self) (border self) =
      lib_QRCode L (size_field self) ERROR_CORRECT_H (box_size self) (border self) \<longrightarrow>
      generate (L\<lparr>lib_QRCode := f\<rparr>) self data output_file fs =
        generate L self data output_file fs"
    by (simp add: generate_simps cong: sum.case_cong prod.case_cong)
  have logged: "constructor_calls (calls (generate L self data output_file fs)) =
     [Call_QRCode (size_field self) ERROR_CORRECT_H (box_size self) (border self)]"
    by (simp add: generate_simps split: sum.split prod.split)
  have first: "map fst (take 1 (calls (generate L self data output_file fs))) =
     [Call_QRCode (size_field self) ERROR_CORRECT_H (box_size self) (border self)]"
    by (simp add: generate_simps split: sum.split prod.split)
  show ?thesis
    using raised used only logged first by blast
qed

text \<open>
  The statement of C5 on the stand-in: with version 41 the constructor raises and so does
  \<open>generate\<close>; with a payload that is not a string \<open>add_data\<close> raises on the constructed
  encoder; and a constructor that refuses every level but H gives the same outcome.
\<close>

theorem generate_constructor_call_witness:
  "result (generate ref_library (QRCodeGenerator_init\<lparr>size_field := PyInt 41\<rparr>)
      (PyStr ''hello'') (PyStr ''out.png'') Map.empty) = Inl (ValueError ''Invalid version'') \<and>
   result (generate ref_library QRCodeGenerator_init (PyInt 5) (PyStr ''out.png'') Map.empty) =
     Inl (TypeError ''payload outside the stand-in'') \<and>
   generate (ref_library\<lparr>lib_QRCode :=
        \<lambda>v ec bs b. if ec = ERROR_CORRECT_H then ref_QRCode v ec bs b
                     else Inl (TypeError ''level'')\<rparr>)
      QRCodeGenerator_init (PyStr ''hello'') (PyStr ''out.png'') Map.empty =
     generate ref_library QRCodeGenerator_init (PyStr ''hello'') (PyStr ''out.png'') Map.empty"
proof -
  let ?qr = "\<lparr>qr_version = Some 4, qr_box_size = 10, qr_border = 4, qr_data = []\<rparr>"
  let ?self41 = "QRCodeGenerator_init\<lparr>size_field := PyInt 41\<rparr>"
  let ?f = "\<lambda>v ec bs b. if ec = ERROR_CORRECT_H then ref_QRCode v ec bs b
                     else Inl (TypeError ''level'')"
  have a: "lib_QRCode ref_library (size_field ?self41) ERROR_CORRECT_H (box_size ?self41)
      (border ?self41) = Inl (ValueError ''Invalid version'')"
    by (simp add: ref_simps)
  have b: "lib_QRCode ref_library (size_field QRCodeGenerator_init) ERROR_CORRECT_H
      (box_size QRCodeGenerator_init) (border QRCodeGenerator_init) = Inr ?qr"
    "lib_add_data ref_library ?qr (PyInt 5) = Inl (TypeError ''payload outside the stand-in'')"
    by (simp_all add: ref_simps)
  have c: "?f (size_field QRCodeGenerator_init) ERROR_CORRECT_H (box_size QRCodeGenerator_init)
      (border QRCodeGenerator_init) =
    lib_QRCode ref_library (size_field QRCodeGenerator_init) ERROR_CORRECT_H
      (box_size QRCodeGenerator_init) (border QRCodeGenerator_init)"
    by (simp add: ref_library_def)
  have "result (generate ref_library ?self41 (PyStr ''hello'') (PyStr ''out.png'') Map.empty) =
      Inl (ValueError ''Invalid version'')"
    using a generate_constructor_call [where L = ref_library and self = ?self41
        and e = "ValueError ''Invalid version''" and data = "PyStr ''hello''"
        and output_file = "PyStr ''out.png''" and fs = Map.empty and qr = ?qr and f = ?f]
    by blast
  moreover have "result (generate ref_library QRCodeGenerator_init (PyInt 5) (PyStr ''out.png'')
      Map.empty) = Inl (TypeError ''payload outside the stand-in'')"
    using b generate_constructor_call [where L = ref_library and self = QRCodeGenerator_init
        and qr = ?qr and e = "TypeError ''payload outside the stand-in''" and data = "PyInt 5"
        and output_file = "PyStr ''out.png''" and fs = Map.empty and f = ?f]
    by blast
  moreover have "generate (ref_library\<lparr>lib_QRCode := ?f\<rparr>)
      QRCodeGenerator_init (PyStr ''hello'') (PyStr ''out.png'') Map.empty =
     generate ref_library QRCodeGenerator_init (PyStr ''hello'') (PyStr ''out.png'') Map.empty"
    using c generate_constructor_call [where L = ref_library and self = QRCodeGenerator_init
        and f = ?f and data = "PyStr ''hello''" and output_file = "PyStr ''out.png''"
        and fs = Map.empty and qr = ?qr and e = "ValueError ''Invalid version''"]
    by blast
  ultimately show ?thesis by blast
qed

text \<open>
  Claim C6. \<open>generate\<close> never changes the configuration: the object after a call, and
  after two calls in a row with any paths and payloads, is the object before. The image
  written depends on the configuration and the payload only (the library being fixed): for
  a configuration and a payload there is one image, or none when encoding or rendering
  raises, such that for every path and every file system, also the one an earlier
  \<open>generate\<close> call on the same object left, the file system after the call is what
  \<open>save\<close> of that image at that path makes of it (unchanged if there is none), and that
  image is the one in the log.
\<close>

theorem generate_keeps_configuration:
  "self_after (generate L self data p fs) = self \<and>
   self_after (generate L (self_after (generate L self data p fs)) data' p'
                 (fs_after (generate L self data p fs))) = self \<and>
   (\<exists>imgo. \<forall>q gs.
      fs_after (generate L self data' q gs) =
        (case imgo of None \<Rightarrow> gs | Some img \<Rightarrow> snd (lib_save L img q gs)) \<and>
      saved_images (calls (generate L self data' q gs)) =
        (case imgo of None \<Rightarrow> [] | Some img \<Rightarrow> [img]) \<and>
      fs_after (generate L (self_after (generate L self data p fs)) data' q
                  (fs_after (generate L self data p fs))) =
        (case imgo of None \<Rightarrow> fs_after (generate L self data p fs)
         | Some img \<Rightarrow> snd (lib_save L img q (fs_after (generate L self data p fs))))) \<and>
   saved_images (calls (generate L self data p fs)) =
     saved_images (calls (generate L self data p' fs')) \<and>
   saved_images (calls (generate L (self_after (generate L self data p fs)) data' p'
                          (fs_after (generate L self data p fs)))) =
     saved_images (calls (generate L self data' p' fs))"
proof -
  have one: "\<exists>imgo. \<forall>q gs.
      fs_after (generate L self data' q gs) =
        (case imgo of None \<Rightarrow> gs | Some img \<Rightarrow> snd (lib_save L img q gs)) \<and>
      saved_images (calls (generate L self data' q gs)) =
        (case imgo of None \<Rightarrow> [] | Some img \<Rightarrow> [img]) \<and>
      fs_after (generate L (self_after (generate L self data p fs)) data' q
                  (fs_after (generate L self data p fs))) =
        (case imgo of None \<Rightarrow> fs_after (generate L self data p fs)
         | Some img \<Rightarrow> snd (lib_save L img q (fs_after (generate L self data p fs))))"
  proof (intro exI allI conjI)
    fix q gs
    show "fs_after (generate L self data' q gs) =
        (case rendered_image L self data' of None \<Rightarrow> gs
         | Some img \<Rightarrow> snd (lib_save L img q gs))"
      by (rule fs_after_generate)
    show "saved_images (calls (generate L self data' q gs)) =
        (case rendered_image L self data' of None \<Rightarrow> [] | Some img \<Rightarrow> [img])"
      by (rule saved_images_rendered)
    show "fs_after (generate L (self_after (generate L self data p fs)) data' q
                  (fs_after (generate L self data p fs))) =
        (case rendered_image L self data' of None \<Rightarrow> fs_after (generate L self data p fs)
         | Some img \<Rightarrow> snd (lib_save L img q (fs_after (generate L self data p fs))))"
      unfolding self_after_generate by (rule fs_after_generate)
  qed
  have two: "saved_images (calls (generate L self data p fs)) =
     saved_images (calls (generate L self data p' fs'))"
    by (rule saved_images_generate)
  have three: "saved_images (calls (generate L self data' p'
                          (fs_after (generate L self data p fs)))) =
     saved_images (calls (generate L self data' p' fs))"
    by (rule saved_images_generate)
  show ?thesis
    using one two three unfolding self_after_generate by blast
qed

text \<open>
  Claim C8. An exception raised by a library call inside \<open>generate\<close> is the exception of
  \<open>generate\<close>, unchanged: for each of the five calls, when the library raises \<open>e\<close> there
  (the calls before it having returned), \<open>generate\<close> raises \<open>e\<close>; nothing is saved when
  one of the first four raises, and when \<open>save\<close> raises the file system is the one
  \<open>save\<close> left. Conversely an exception leaving \<open>generate\<close> is one the library raised at
  one of these five calls, the one exception being the \<open>NameError\<close> of line 39. In the
  log the call that raised is the last one made (nothing is caught, retried or recovered),
  and no operation is called twice.
\<close>

theorem generate_propagates_errors:
  "(lib_QRCode L (size_field self) ERROR_CORRECT_H (box_size self) (border self) = Inl e \<longrightarrow>
      result (generate L self data output_file fs) = Inl e \<and>
      fs_after (generate L self data output_file fs) = fs) \<and>
   (lib_QRCode L (size_field self) ERROR_CORRECT_H (box_size self) (border self) = Inr qr \<longrightarrow>
    lib_add_data L qr data = Inl e \<longrightarrow>
      result (generate L self data output_file fs) = Inl e \<and>
      fs_after (generate L self data output_file fs) = fs) \<and>
   (lib_QRCode L (size_field self) ERROR_CORRECT_H (box_size self) (border self) = Inr qr \<longrightarrow>
    lib_add_data L qr data = Inr qr1 \<longrightarrow> lib_make L qr1 True = Inl e \<longrightarrow>
      result (generate L self data output_file fs) = Inl e \<and>
      fs_after (generate L self data output_file fs) = fs) \<and>
   (lib_QRCode L (size_field self) ERROR_CORRECT_H (box_size self) (border self) = Inr qr \<longrightarrow>
    lib_add_data L qr data = Inr qr1 \<longrightarrow> lib_make L qr1 True = Inr qr2 \<longrightarrow>
    lib_make_image L qr2 (fill_color self) (back_color self) = Inl e \<longrightarrow>
      result (generate L self data output_file fs) = Inl e \<and>
      fs_after (generate L self data output_file fs) = fs) \<and>
   (lib_QRCode L (size_field self) ERROR_CORRECT_H (box_size self) (border self) = Inr qr \<longrightarrow>
    lib_add_data L qr data = Inr qr1 \<longrightarrow> lib_make L qr1 True = Inr qr2 \<longrightarrow>
    lib_make_image L qr2 (fill_color self) (back_color self) = Inr img \<longrightarrow>
    fst (lib_save L img output_file fs) = Inl e \<longrightarrow>
      result (generate L self data output_file fs) = Inl e \<and>
      fs_after (generate L self data output_file fs) = snd (lib_save L img output_file fs)) \<and>
   (result (generate L self data output_file fs) = Inl e' \<longrightarrow>
      e' = NameError ''os'' \<or>
      lib_QRCode L (size_field self) ERROR_CORRECT_H (box_size self) (border self) = Inl e' \<or>
      (\<exists>qr. lib_QRCode L (size_field self) ERROR_CORRECT_H (box_size self) (border self) = Inr qr \<and>
        (lib_add_data L qr data = Inl e' \<or>
         (\<exists>qr1. lib_add_data L qr data = Inr qr1 \<and>
           (lib_make L qr1 True = Inl e' \<or>
            (\<exists>qr2. lib_make L qr1 True = Inr qr2 \<and>
              (lib_make_image L qr2 (fill_color self) (back_color self) = Inl e' \<or>
               (\<exists>img. lib_make_image L qr2 (fill_color self) (back_color self) = Inr img \<and>
                  fst (lib_save L img output_file fs) = Inl e')))))))) \<and>
   ((c, Some e) \<in> set (calls (generate L self data output_file fs)) \<longrightarrow>
      result (generate L self data output_file fs) = Inl e \<and>
      last (calls (generate L self data output_file fs)) = (c, Some e)) \<and>
   (result (generate L self data output_file fs) = Inl e' \<longrightarrow>
      (\<exists>c'. last (calls (generate L self data output_file fs)) = (c', Some e')) \<or>
      e' = NameError ''os'') \<and>
   distinct (map fst (calls (generate L self data output_file fs)))"
proof -
  have lib: "(lib_QRCode L (size_field self) ERROR_CORRECT_H (box_size self) (border self) = Inl e \<longrightarrow>
      result (generate L self data output_file fs) = Inl e \<and>
      fs_after (generate L self data output_file fs) = fs) \<and>
   (lib_QRCode L (size_field self) ERROR_CORRECT_H (box_size self) (border self) = Inr qr \<longrightarrow>
    lib_add_data L qr data = Inl e \<longrightarrow>
      result (generate L self data output_file fs) = Inl e \<and>
      fs_after (generate L self data output_file fs) = fs) \<and>
   (lib_QRCode L (size_field self) ERROR_CORRECT_H (box_size self) (border self) = Inr qr \<longrightarrow>
    lib_add_data L qr data = Inr qr1 \<longrightarrow> lib_make L qr1 True = Inl e \<longrightarrow>
      result (generate L self data output_file fs) = Inl e \<and>
      fs_after (generate L self data output_file fs) = fs) \<and>
   (lib_QRCode L (size_field self) ERROR_CORRECT_H (box_size self) (border self) = Inr qr \<longrightarrow>
    lib_add_data L qr data = Inr qr1 \<longrightarrow> lib_make L qr1 True = Inr qr2 \<longrightarrow>
    lib_make_image L qr2 (fill_color self) (back_color self) = Inl e \<longrightarrow>
      result (generate L self data output_file fs) = Inl e \<and>
      fs_after (generate L self data output_file fs) = fs) \<and>
   (lib_QRCode L (size_field self) ERROR_CORRECT_H (box_size self) (border self) = Inr qr \<longrightarrow>
    lib_add_data L qr data = Inr qr1 \<longrightarrow> lib_make L qr1 True = Inr qr2 \<longrightarrow>
    lib_make_image L qr2 (fill_color self) (back_color self) = Inr img \<longrightarrow>
    fst (lib_save L img output_file fs) = Inl e \<longrightarrow>
      result (generate L self data output_file fs) = Inl e \<and>
      fs_after (generate L self data output_file fs) = snd (lib_save L img output_file fs))"
    by (auto simp add: generate_simps split: sum.split prod.split)
  show ?thesis
    using lib result_from_library [of L self data output_file fs e']
      raised_is_result [of c e L self data output_file fs]
      result_is_raised [of L self data output_file fs e']
      calls_distinct [of L self data output_file fs]
    by blast
qed

text \<open>
  The statement of C8 on the stand-in, once for each of the five calls: a version the
  constructor refuses, a payload \<open>add_data\<close> refuses, a payload no version holds, a colour
  the imaging library does not know, and a path that cannot be written.
\<close>

theorem generate_propagates_errors_witness:
  "result (generate ref_library (QRCodeGenerator_init\<lparr>size_field := PyInt 41\<rparr>)
      (PyStr ''hello'') (PyStr ''out.png'') Map.empty) = Inl (ValueError ''Invalid version'') \<and>
   result (generate ref_library QRCodeGenerator_init (PyInt 5) (PyStr ''out.png'') Map.empty) =
     Inl (TypeError ''payload outside the stand-in'') \<and>
   result (generate ref_library QRCodeGenerator_init (PyStr (replicate 1274 (CHR ''a'')))
      (PyStr ''out.png'') Map.empty) = Inl (ValueError ''Invalid version'') \<and>
   result (generate ref_library (QRCodeGenerator_init\<lparr>fill_color := PyStr ''no such colour''\<rparr>)
      (PyStr ''hello'') (PyStr ''out.png'') Map.empty) = Inl (ValueError ''unknown color specifier'') \<and>
   result (generate ref_library QRCodeGenerator_init (PyStr ''hello'') (PyStr [])
      Map.empty) = Inl (OSError ''no such file'')"
proof -
  let ?qr = "\<lparr>qr_version = Some 4, qr_box_size = 10, qr_border = 4, qr_data = []\<rparr>"
  let ?img = "\<lparr>img_version = 4, img_box_size = 10, img_border = 4,
          img_fill = PyStr ''black'', img_back = PyStr ''white'', img_data = ''hello''\<rparr>"
  have "result (generate ref_library (QRCodeGenerator_init\<lparr>size_field := PyInt 41\<rparr>)
      (PyStr ''hello'') (PyStr ''out.png'') Map.empty) = Inl (ValueError ''Invalid version'')"
    using generate_propagates_errors [where L = ref_library
        and self = "QRCodeGenerator_init\<lparr>size_field := PyInt 41\<rparr>"
        and e = "ValueError ''Invalid version''" and data = "PyStr ''hello''"
        and output_file = "PyStr ''out.png''" and fs = Map.empty]
    by (simp add: ref_simps)
  moreover have "result (generate ref_library QRCodeGenerator_init (PyInt 5) (PyStr ''out.png'')
      Map.empty) = Inl (TypeError ''payload outside the stand-in'')"
    using generate_propagates_errors [where L = ref_library and self = QRCodeGenerator_init
        and qr = ?qr and e = "TypeError ''payload outside the stand-in''" and data = "PyInt 5"
        and output_file = "PyStr ''out.png''" and fs = Map.empty]
    by (simp add: ref_simps)
  moreover have "result (generate ref_library QRCodeGenerator_init
      (PyStr (replicate 1274 (CHR ''a''))) (PyStr ''out.png'') Map.empty) =
      Inl (ValueError ''Invalid version'')"
    using generate_propagates_errors [where L = ref_library and self = QRCodeGenerator_init
        and qr = ?qr and ?qr1.0 = "?qr\<lparr>qr_data := replicate 1274 (CHR ''a'')\<rparr>"
        and e = "ValueError ''Invalid version''"
        and data = "PyStr (replicate 1274 (CHR ''a''))"
        and output_file = "PyStr ''out.png''" and fs = Map.empty]
    by (simp add: ref_simps)
  moreover have "result (generate ref_library
      (QRCodeGenerator_init\<lparr>fill_color := PyStr ''no such colour''\<rparr>)
      (PyStr ''hello'') (PyStr ''out.png'') Map.empty) =
      Inl (ValueError ''unknown color specifier'')"
    using generate_propagates_errors [where L = ref_library
        and self = "QRCodeGenerator_init\<lparr>fill_color := PyStr ''no such colour''\<rparr>"
        and qr = ?qr and ?qr1.0 = "?qr\<lparr>qr_data := ''hello''\<rparr>"
        and ?qr2.0 = "?qr\<lparr>qr_data := ''hello''\<rparr>"
        and e = "ValueError ''unknown color specifier''" and data = "PyStr ''hello''"
        and output_file = "PyStr ''out.png''" and fs = Map.empty]
    by (simp add: ref_simps)
  moreover have "result (generate ref_library QRCodeGenerator_init (PyStr ''hello'') (PyStr [])
      Map.empty) = Inl (OSError ''no such file'')"
    using generate_propagates_errors [where L = ref_library and self = QRCodeGenerator_init
        and qr = ?qr and ?qr1.0 = "?qr\<lparr>qr_data := ''hello''\<rparr>"
        and ?qr2.0 = "?qr\<lparr>qr_data := ''hello''\<rparr>" and img = ?img
        and e = "OSError ''no such file''" and data = "PyStr ''hello''"
        and output_file = "PyStr []" and fs = Map.empty]
    by (simp add: ref_simps)
  ultimately show ?thesis by blast
qed

text \<open>
  Claim C9. With \<open>output_file\<close> left out, \<open>generate\<close> runs with the path
  \<open>"qrcode5.png"\<close> and writes the image there: when the four calls before \<open>save\<close>
  return an image, the file system after the call is the one \<open>save\<close> leaves for that image
  at the relative file name \<open>qrcode5.png\<close>; and whatever the configuration and the payload,
  the file system after the call is either the one before or the result of \<open>save\<close> at that
  one path. In the log every \<open>save\<close> has that path.
\<close>

theorem generate_default_output_file:
  "call_generate L self data None fs = generate L self data (PyStr ''qrcode5.png'') fs \<and>
   (lib_QRCode L (size_field self) ERROR_CORRECT_H (box_size self) (border self) = Inr qr \<longrightarrow>
    lib_add_data L qr data = Inr qr1 \<longrightarrow> lib_make L qr1 True = Inr qr2 \<longrightarrow>
    lib_make_image L qr2 (fill_color self) (back_color self) = Inr img \<longrightarrow>
      fs_after (call_generate L self data None fs) =
        snd (lib_save L img (PyStr ''qrcode5.png'') fs) \<and>
      saved_images (calls (call_generate L self data None fs)) = [img] \<and>
      saved_paths (calls (call_generate L self data None fs)) = [PyStr ''qrcode5.png'']) \<and>
   (\<exists>imgo. \<forall>gs.
      fs_after (call_generate L self data None gs) =
        (case imgo of None \<Rightarrow> gs
         | Some img' \<Rightarrow> snd (lib_save L img' (PyStr ''qrcode5.png'') gs))) \<and>
   saved_paths (calls (call_generate L self data None fs)) =
     map (\<lambda>img. PyStr ''qrcode5.png'') (saved_images (calls (call_generate L self data None fs))) \<and>
   ((Call_make_image (fill_color self) (back_color self), None) \<in>
      set (calls (call_generate L self data None fs)) \<longrightarrow>
    saved_paths (calls (call_generate L self data None fs)) = [PyStr ''qrcode5.png''])"
proof -
  have unfold: "\<And>gs. call_generate L self data None gs =
      generate L self data (PyStr ''qrcode5.png'') gs"
    by (simp add: call_generate_def arg_or_default_def)
  have written: "lib_QRCode L (size_field self) ERROR_CORRECT_H (box_size self) (border self) = Inr qr \<longrightarrow>
    lib_add_data L qr data = Inr qr1 \<longrightarrow> lib_make L qr1 True = Inr qr2 \<longrightarrow>
    lib_make_image L qr2 (fill_color self) (back_color self) = Inr img \<longrightarrow>
      fs_after (generate L self data (PyStr ''qrcode5.png'') fs) =
        snd (lib_save L img (PyStr ''qrcode5.png'') fs) \<and>
      saved_images (calls (generate L self data (PyStr ''qrcode5.png'') fs)) = [img] \<and>
      saved_paths (calls (generate L self data (PyStr ''qrcode5.png'') fs)) =
        [PyStr ''qrcode5.png'']"
    by (simp add: generate_simps split: sum.split prod.split)
  have only: "\<exists>imgo. \<forall>gs.
      fs_after (generate L self data (PyStr ''qrcode5.png'') gs) =
        (case imgo of None \<Rightarrow> gs
         | Some img' \<Rightarrow> snd (lib_save L img' (PyStr ''qrcode5.png'') gs))"
    using fs_after_generate [of L self data "PyStr ''qrcode5.png''"] by blast
  show ?thesis
    unfolding unfold
    using written only saved_paths_generate [of L self data "PyStr ''qrcode5.png''" fs]
      rendered_is_saved [of "fill_color self" "back_color self" L self data
        "PyStr ''qrcode5.png''" fs]
    by blast
qed

text \<open>
  The statement of C9 on the stand-in, on a new object and on an object with another version
  and colour: the only file after the call is \<open>qrcode5.png\<close>, holding the image.
\<close>

theorem generate_default_output_file_witness:
  "fs_after (call_generate ref_library QRCodeGenerator_init (PyStr ''hello'') None Map.empty) =
     [''qrcode5.png'' \<mapsto>
        \<lparr>img_version = 4, img_box_size = 10, img_border = 4, img_fill = PyStr ''black'',
         img_back = PyStr ''white'', img_data = ''hello''\<rparr>] \<and>
   fs_after (call_generate ref_library
      (QRCodeGenerator_init\<lparr>size_field := PyInt 9, fill_color := PyStr ''blue''\<rparr>)
      (PyStr ''another payload'') None Map.empty) =
     [''qrcode5.png'' \<mapsto>
        \<lparr>img_version = 9, img_box_size = 10, img_border = 4, img_fill = PyStr ''blue'',
         img_back = PyStr ''white'', img_data = ''another payload''\<rparr>] \<and>
   saved_paths (calls (call_generate ref_library QRCodeGenerator_init (PyStr ''hello'') None
      Map.empty)) = [PyStr ''qrcode5.png'']"
proof -
  let ?qr = "\<lparr>qr_version = Some 4, qr_box_size = 10, qr_border = 4, qr_data = []\<rparr>"
  let ?qr9 = "\<lparr>qr_version = Some 9, qr_box_size = 10, qr_border = 4, qr_data = []\<rparr>"
  let ?img = "\<lparr>img_version = 4, img_box_size = 10, img_border = 4,
          img_fill = PyStr ''black'', img_back = PyStr ''white'', img_data = ''hello''\<rparr>"
  let ?img9 = "\<lparr>img_version = 9, img_box_size = 10, img_border = 4,
          img_fill = PyStr ''blue'', img_back = PyStr ''white'',
          img_data = ''another payload''\<rparr>"
  let ?self9 = "QRCodeGenerator_init\<lparr>size_field := PyInt 9, fill_color := PyStr ''blue''\<rparr>"
  have a: "lib_QRCode ref_library (size_field QRCodeGenerator_init) ERROR_CORRECT_H
        (box_size QRCodeGenerator_init) (border QRCodeGenerator_init) = Inr ?qr"
    "lib_add_data ref_library ?qr (PyStr ''hello'') = Inr (?qr\<lparr>qr_data := ''hello''\<rparr>)"
    "lib_make ref_library (?qr\<lparr>qr_data := ''hello''\<rparr>) True =
       Inr (?qr\<lparr>qr_data := ''hello''\<rparr>)"
    "lib_make_image ref_library (?qr\<lparr>qr_data := ''hello''\<rparr>)
       (fill_color QRCodeGenerator_init) (back_color QRCodeGenerator_init) = Inr ?img"
    by (simp_all add: ref_simps)
  have b: "lib_QRCode ref_library (size_field ?self9) ERROR_CORRECT_H
        (box_size ?self9) (border ?self9) = Inr ?qr9"
    "lib_add_data ref_library ?qr9 (PyStr ''another payload'') =
       Inr (?qr9\<lparr>qr_data := ''another payload''\<rparr>)"
    "lib_make ref_library (?qr9\<lparr>qr_data := ''another payload''\<rparr>) True =
       Inr (?qr9\<lparr>qr_data := ''another payload''\<rparr>)"
    "lib_make_image ref_library (?qr9\<lparr>qr_data := ''another payload''\<rparr>)
       (fill_color ?self9) (back_color ?self9) = Inr ?img9"
    by (simp_all add: ref_simps)
  have save: "snd (lib_save ref_library ?img (PyStr ''qrcode5.png'') Map.empty) =
      [''qrcode5.png'' \<mapsto> ?img]"
    "snd (lib_save ref_library ?img9 (PyStr ''qrcode5.png'') Map.empty) =
      [''qrcode5.png'' \<mapsto> ?img9]"
    by (simp_all add: ref_library_def ref_save_def)
  have "fs_after (call_generate ref_library QRCodeGenerator_init (PyStr ''hello'') None
      Map.empty) = snd (lib_save ref_library ?img (PyStr ''qrcode5.png'') Map.empty) \<and>
    saved_paths (calls (call_generate ref_library QRCodeGenerator_init (PyStr ''hello'') None
      Map.empty)) = [PyStr ''qrcode5.png'']"
    using a generate_default_output_file [where L = ref_library and self = QRCodeGenerator_init
        and data = "PyStr ''hello''" and fs = Map.empty and qr = ?qr
        and ?qr1.0 = "?qr\<lparr>qr_data := ''hello''\<rparr>"
        and ?qr2.0 = "?qr\<lparr>qr_data := ''hello''\<rparr>" and img = ?img]
    by blast
  moreover have "fs_after (call_generate ref_library ?self9
      (PyStr ''another payload'') None Map.empty) =
      snd (lib_save ref_library ?img9 (PyStr ''qrcode5.png'') Map.empty)"
    using b generate_default_output_file [where L = ref_library and self = ?self9
        and data = "PyStr ''another payload''" and fs = Map.empty and qr = ?qr9
        and ?qr1.0 = "?qr9\<lparr>qr_data := ''another payload''\<rparr>"
        and ?qr2.0 = "?qr9\<lparr>qr_data := ''another payload''\<rparr>" and img = ?img9]
    by blast
  ultimately show ?thesis
    unfolding save by blast
qed

end
